theory Spec2Isabelle
  imports Main "HOL-Library.Sublist"
begin

section \<open>Python text\<close>

text \<open>
  The program handles the text printed by the external tool as Python \<open>str\<close> values.
  A text is modelled as a \<open>string\<close> whose characters are the code points below 256
  (Latin-1): on that range \<open>str.lower\<close>, the regular expressions of the source and
  \<open>len\<close> are modelled exactly, one \<open>char\<close> per code point.
\<close>

text \<open>\<open>sub in s\<close> on Python strings: \<open>sub\<close> occurs in \<open>s\<close> as a contiguous run.\<close>

fun py_in :: "string \<Rightarrow> string \<Rightarrow> bool" where
  "py_in sub [] = (sub = [])"
| "py_in sub (c # cs) = (prefix sub (c # cs) \<or> py_in sub cs)"

text \<open>
  \<open>str.lower\<close> on one code point below 256: the ASCII capitals and the Latin-1
  capitals (\<open>0xC0\<close> to \<open>0xDE\<close>, the multiplication sign \<open>0xD7\<close> apart) move up by 32.
\<close>

definition lower_char :: "char \<Rightarrow> char" where
  "lower_char c =
     (let n = (of_char c :: nat)
      in if (65 \<le> n \<and> n \<le> 90) \<or> (192 \<le> n \<and> n \<le> 222 \<and> n \<noteq> 215)
         then char_of (n + 32) else c)"

definition py_lower :: "string \<Rightarrow> string" where
  "py_lower s = map lower_char s"

section \<open>Results of \<open>subprocess.run\<close>\<close>

text \<open>
  \<open>subprocess.run(..., capture_output=True, text=True)\<close> either raises (the
  executable cannot be started) or returns a \<open>CompletedProcess\<close>. No call of the
  source passes \<open>check=True\<close> or \<open>timeout=\<close>, so a non-zero exit status is a
  returned value, not an exception.
\<close>

datatype py_exception = PyException string

record completed_process =
  returncode :: int
  stdout :: string
  stderr :: string

type_synonym run_result = "py_exception + completed_process"

section \<open>Version detection\<close>

text \<open>
  Lines 1067 to 1075 of \<open>batch_download_worker\<close>, and again lines 1193 to 1201 of
  \<open>download_single_song\<close>:
  \<^verbatim>\<open>
  try:
      ver_check = subprocess.run([sys.executable, "-m", "spotdl", "--version"], ...)
      is_v4 = "4." in (ver_check.stdout + ver_check.stderr)
  except Exception:
      is_v4 = False
  \<close>
\<close>

definition detect_is_v4 :: "run_result \<Rightarrow> bool" where
  "detect_is_v4 ver_check =
     (case ver_check of
        Inl e \<Rightarrow> False
      | Inr p \<Rightarrow> py_in ''4.'' (stdout p @ stderr p))"

section \<open>Commands\<close>

text \<open>
  The pieces of the environment that the source reads once per batch: \<open>sys.executable\<close>,
  \<open>self.output_folder.get()\<close> and \<open>self.audio_format.get()\<close>.
\<close>

record settings =
  executable :: string
  output_folder :: string
  audio_format :: string

text \<open>\<open>os.path.join(a, b)\<close>, in its POSIX form.\<close>

definition os_path_join :: "string \<Rightarrow> string \<Rightarrow> string" where
  "os_path_join a b =
     (if prefix ''/'' b then b
      else if a = [] \<or> suffix ''/'' a then a @ b
      else a @ ''/'' @ b)"

definition version_cmd :: "settings \<Rightarrow> string list" where
  "version_cmd cfg = [executable cfg, ''-m'', ''spotdl'', ''--version'']"

text \<open>
  Lines 1091 to 1105 of \<open>download_single\<close>, and the same text at lines 1203 to 1219 of
  \<open>download_single_song\<close>: the command of one download, by dialect.
\<close>

definition download_cmd :: "settings \<Rightarrow> bool \<Rightarrow> string \<Rightarrow> string list" where
  "download_cmd cfg is_v4 url =
     (if is_v4
      then [executable cfg, ''-m'', ''spotdl'',
            ''download'', url,
            ''--output'', os_path_join (output_folder cfg) ''{artist} - {title}.{output-ext}'',
            ''--format'', audio_format cfg]
      else [executable cfg, ''-m'', ''spotdl'',
            url,
            ''--output'', output_folder cfg,
            ''--output-format'', audio_format cfg,
            ''--path-template'', ''{artist} - {title}.{ext}''])"

text \<open>What a worker does to the outside world: it calls \<open>subprocess.run\<close> or
  \<open>subprocess.Popen\<close> with a command (\<open>Spawn\<close>, also when the call then raises), or it
  terminates the process it started (\<open>Terminate\<close>).\<close>

datatype effect = Spawn "string list" | Terminate "string list"

section \<open>The batch path: \<open>download_single\<close>\<close>

text \<open>
  \<open>re.search(r'"([^"]+)"', output)\<close>: the leftmost double quote that is followed by
  at least one other character and, later, by a closing double quote; the group is the
  text between the two.
\<close>

fun search_quoted :: "string \<Rightarrow> string option" where
  "search_quoted [] = None"
| "search_quoted (c # cs) =
     (if c = CHR 0x22 \<and> takeWhile (\<lambda>x. x \<noteq> CHR 0x22) cs \<noteq> []
         \<and> dropWhile (\<lambda>x. x \<noteq> CHR 0x22) cs \<noteq> []
      then Some (takeWhile (\<lambda>x. x \<noteq> CHR 0x22) cs)
      else search_quoted cs)"

text \<open>
  Lines 1117 to 1128: the classification of a process that has exited. The result is
  the pair the source returns, a tag and an optional detail.
\<close>

definition classify_output :: "completed_process \<Rightarrow> string \<times> string option" where
  "classify_output result =
     (let output = stdout result @ stderr result;
          lower = py_lower output
      in if py_in ''already downloaded'' lower \<or> py_in ''skipping'' lower
            \<or> (py_in ''oserror'' lower \<and> py_in ''already downloaded'' lower)
         then (''skipped'', None)
         else if py_in ''could not match'' lower \<or> py_in ''lookuperror'' lower
         then (''error'', Some (case search_quoted output of Some m \<Rightarrow> m | None \<Rightarrow> ''Unknown''))
         else if returncode result = 0
         then (''downloaded'', None)
         else (''error'', None))"

text \<open>
  What one call of \<open>download_single\<close> meets: the value of \<open>self.is_downloading\<close> it
  reads on entry (line 1088), and what \<open>subprocess.run\<close> does with its command. The call
  blocks in \<open>subprocess.run\<close> until the process has exited and reads the flag nowhere else.
\<close>

record single_env =
  flag_on_entry :: bool
  run :: run_result

definition download_single ::
  "settings \<Rightarrow> bool \<Rightarrow> single_env \<Rightarrow> string \<Rightarrow> (string \<times> string option) \<times> effect list" where
  "download_single cfg is_v4 env url =
     (if \<not> flag_on_entry env then ((''cancelled'', None), [])
      else (case run env of
              Inl e \<Rightarrow> ((''error'', None), [Spawn (download_cmd cfg is_v4 url)])
            | Inr result \<Rightarrow> (classify_output result, [Spawn (download_cmd cfg is_v4 url)])))"

section \<open>The single-song path: \<open>download_single_song\<close>\<close>

text \<open>
  \<open>re.sub(r'\x1b\[[0-9;]*m', '', line)\<close>: every escape sequence made of ESC, an opening
  bracket, any number of digits and semicolons, and a final \<open>m\<close>, is removed, scanning
  from the left.
\<close>

definition is_sgr_param :: "char \<Rightarrow> bool" where
  "is_sgr_param c = (c \<in> set ''0123456789;'')"

function strip_ansi :: "string \<Rightarrow> string" where
  "strip_ansi [] = []"
| "strip_ansi (c # cs) =
     (if c = CHR 0x1B \<and> prefix ''['' cs \<and> prefix ''m'' (dropWhile is_sgr_param (tl cs))
      then strip_ansi (tl (dropWhile is_sgr_param (tl cs)))
      else c # strip_ansi cs)"
  by pat_completeness auto
termination
proof (relation "measure length")
  show "wf (measure length)" by simp
next
  fix c :: char and cs :: string
  have "length (dropWhile is_sgr_param (tl cs)) \<le> length (tl cs)"
    by (rule length_dropWhile_le)
  then show "(tl (dropWhile is_sgr_param (tl cs)), c # cs) \<in> measure length"
    by simp
next
  fix c :: char and cs :: string
  show "(cs, c # cs) \<in> measure length" by simp
qed

text \<open>\<open>re.sub(r'[\x00-\x1f\x7f-\x9f]', '', clean)\<close>\<close>

definition is_control :: "char \<Rightarrow> bool" where
  "is_control c = (let n = (of_char c :: nat) in n \<le> 31 \<or> (127 \<le> n \<and> n \<le> 159))"

definition remove_controls :: "string \<Rightarrow> string" where
  "remove_controls s = filter (\<lambda>c. \<not> is_control c) s"

text \<open>\<open>str.strip()\<close>: the white space of Python among the code points below 256.\<close>

definition is_space :: "char \<Rightarrow> bool" where
  "is_space c =
     (let n = (of_char c :: nat)
      in (9 \<le> n \<and> n \<le> 13) \<or> (28 \<le> n \<and> n \<le> 32) \<or> n = 133 \<or> n = 160)"

definition py_strip :: "string \<Rightarrow> string" where
  "py_strip s = rev (dropWhile is_space (rev (dropWhile is_space s)))"

text \<open>Lines 1248 and 1249.\<close>

definition clean_line :: "string \<Rightarrow> string" where
  "clean_line line = py_strip (remove_controls (strip_ansi line))"

text \<open>Lines 1246 to 1254: the first cleaned line that is not empty, is shorter than 200
  and holds one of five markers.\<close>

fun find_result_msg :: "string list \<Rightarrow> string option" where
  "find_result_msg [] = None"
| "find_result_msg (line # rest) =
     (let clean = clean_line line
      in if clean \<noteq> [] \<and> length clean < 200
            \<and> list_ex (\<lambda>x. py_in x (py_lower clean))
                 [''downloaded'', ''skipping'', ''already exists'', ''error'', ''lookuperror'']
         then Some clean
         else find_result_msg rest)"

text \<open>
  A process started by \<open>subprocess.Popen\<close> with its two streams merged: the lines it
  prints, each with the value of \<open>self.is_downloading\<close> that the reading loop finds
  after it has read that line (line 1238), and how the reading ends: with an exception
  raised while reading or waiting, or with the exit status.
\<close>

record process =
  out_lines :: "(string \<times> bool) list"
  finish :: "py_exception + int"

text \<open>Lines 1236 to 1241: \<open>None\<close> when the loop found the flag cleared.\<close>

fun read_lines :: "(string \<times> bool) list \<Rightarrow> string list option" where
  "read_lines [] = Some []"
| "read_lines ((line, flag) # rest) =
     (if \<not> flag then None else map_option ((#) line) (read_lines rest))"

record song_env =
  song_flag_on_entry :: bool
  ver_check :: run_result
  popen :: "py_exception + process"

text \<open>
  The first component of the result is Python's \<open>success or skipped\<close>, which is
  \<open>True\<close>, \<open>False\<close> or \<open>None\<close>; a cancelled call returns \<open>(None, None)\<close>.
\<close>

definition download_single_song ::
  "settings \<Rightarrow> song_env \<Rightarrow> string \<Rightarrow> (bool option \<times> string option) \<times> effect list" where
  "download_single_song cfg env url =
     (if \<not> song_flag_on_entry env then ((None, None), [])
      else
        let is_v4 = detect_is_v4 (ver_check env);
            cmd = download_cmd cfg is_v4 url;
            started = [Spawn (version_cmd cfg), Spawn cmd]
        in (case popen env of
              Inl (PyException e) \<Rightarrow> ((Some False, Some e), started)
            | Inr proc \<Rightarrow>
                (case read_lines (out_lines proc) of
                   None \<Rightarrow> ((None, None), started @ [Terminate cmd])
                 | Some output_lines \<Rightarrow>
                     (case finish proc of
                        Inl (PyException e) \<Rightarrow> ((Some False, Some e), started)
                      | Inr rc \<Rightarrow>
                          let result_msg = find_result_msg output_lines;
                              success = (rc = 0);
                              skipping = map_option (\<lambda>m. py_in ''skipping'' (py_lower m)) result_msg
                          in ((if success then Some True else skipping, result_msg), started)))))"

section \<open>Decimal numbers in messages\<close>

text \<open>The text an f-string gives for a natural number.\<close>

definition digit_char :: "nat \<Rightarrow> char" where
  "digit_char d = char_of (48 + d)"

fun show_nat :: "nat \<Rightarrow> string" where
  "show_nat n = (if n < 10 then [digit_char n] else show_nat (n div 10) @ [digit_char (n mod 10)])"

declare show_nat.simps [simp del]

section \<open>The batch worker\<close>

text \<open>Lines 1080 to 1083: the counters of one batch, all zero at the start.\<close>

record counters =
  downloaded :: nat
  skipped :: nat
  errors :: nat
  completed :: nat

definition zero_counters :: counters where
  "zero_counters = \<lparr>downloaded = 0, skipped = 0, errors = 0, completed = 0\<rparr>"

text \<open>Lines 1146 to 1153: what one result does to the counters. (The warning that line
  1155 writes to the log for an error with a detail changes no counter and is left out.)\<close>

definition record_result :: "string \<times> string option \<Rightarrow> counters \<Rightarrow> counters" where
  "record_result r c =
     (let c1 = c\<lparr>completed := completed c + 1\<rparr>
      in if fst r = ''downloaded'' then c1\<lparr>downloaded := downloaded c1 + 1\<rparr>
         else if fst r = ''skipped'' then c1\<lparr>skipped := skipped c1 + 1\<rparr>
         else if fst r = ''error'' then c1\<lparr>errors := errors c1 + 1\<rparr>
         else c1)"

text \<open>
  One submitted URL as the batch meets it: the URL, what its call of \<open>download_single\<close>
  meets, and the value of \<open>self.is_downloading\<close> that the loop over \<open>as_completed\<close>
  reads (line 1139) when this future is handed to it. A batch is the list of its
  submitted URLs in the order in which their futures complete; \<open>total_urls\<close> is its
  length. A future that was cancelled before it started never runs \<open>download_single\<close>,
  which has the effects of a call that finds the flag cleared on entry: none.
\<close>

record completion =
  item_url :: string
  item_env :: single_env
  flag_in_loop :: bool

text \<open>
  Lines 1138 to 1162: the loop. It returns whether it left by the cancellation branch,
  the counters it ends with, and the counters after each update, which are the values it
  sends to the progress bar and the status line.
\<close>

fun drain :: "settings \<Rightarrow> bool \<Rightarrow> counters \<Rightarrow> completion list \<Rightarrow> bool \<times> counters \<times> counters list" where
  "drain cfg is_v4 c [] = (False, c, [])"
| "drain cfg is_v4 c (x # xs) =
     (if \<not> flag_in_loop x then (True, c, [])
      else
        let c' = record_result (fst (download_single cfg is_v4 (item_env x) (item_url x))) c;
            (cancelled, c'', snaps) = drain cfg is_v4 c' xs
        in (cancelled, c'', c' # snaps))"

text \<open>Lines 1165 to 1180: the arguments of the final call of \<open>download_complete\<close>.\<close>

definition final_report :: "counters \<Rightarrow> bool \<times> string" where
  "final_report c =
     (if downloaded c > 0 \<or> skipped c > 0 then
        (let msg =
           (if downloaded c > 0 \<and> skipped c > 0
            then ''Done! '' @ show_nat (downloaded c) @ '' downloaded, ''
                   @ show_nat (skipped c) @ '' already existed''
            else if downloaded c > 0 then ''Downloaded '' @ show_nat (downloaded c) @ '' songs!''
            else if skipped c > 0 then ''All '' @ show_nat (skipped c) @ '' songs already existed''
            else ''Download complete'')
         in (True, if errors c > 0 then msg @ '' ('' @ show_nat (errors c) @ '' failed)'' else msg))
      else if errors c > 0 then (False, show_nat (errors c) @ '' songs failed to download'')
      else (False, ''No songs found or downloaded''))"

text \<open>
  \<open>batch_download_worker\<close>, for a worker count of 1 to 8 (the range of the slider, so that
  creating the pool does not raise): the version check, once, then the pool and the loop.
  The effects are those of the version check and of every call of \<open>download_single\<close>.
\<close>

record batch_result =
  report :: "bool \<times> string"
  cancelled_in_loop :: bool
  final_counters :: counters
  snapshots :: "counters list"
  effects :: "effect list"

definition batch_download_worker :: "settings \<Rightarrow> run_result \<Rightarrow> completion list \<Rightarrow> batch_result" where
  "batch_download_worker cfg ver items =
     (let is_v4 = detect_is_v4 ver;
          (cancelled, c, snaps) = drain cfg is_v4 zero_counters items
      in \<lparr>report = (if cancelled then (False, ''Cancelled'') else final_report c),
          cancelled_in_loop = cancelled,
          final_counters = c,
          snapshots = snaps,
          effects = Spawn (version_cmd cfg)
            # concat (map (\<lambda>x. snd (download_single cfg is_v4 (item_env x) (item_url x))) items)\<rparr>)"

section \<open>The single-URL worker\<close>

record song_completion =
  song_url :: string
  song_item_env :: song_env
  song_flag_in_loop :: bool

record song_counters =
  song_completed :: nat
  song_skipped :: nat
  song_processed :: nat

text \<open>\<open>msg and "skipping" in msg.lower()\<close> as a truth value: \<open>None\<close> and the empty
  text are false.\<close>

definition says_skipping :: "string option \<Rightarrow> bool" where
  "says_skipping msg =
     (case msg of None \<Rightarrow> False | Some m \<Rightarrow> m \<noteq> [] \<and> py_in ''skipping'' (py_lower m))"

text \<open>Lines 1295 to 1302.\<close>

definition record_song :: "bool option \<times> string option \<Rightarrow> song_counters \<Rightarrow> song_counters" where
  "record_song r c =
     (let c1 = c\<lparr>song_processed := song_processed c + 1\<rparr>
      in if fst r = Some True
         then (let c2 = c1\<lparr>song_completed := song_completed c1 + 1\<rparr>
               in if says_skipping (snd r)
                  then c2\<lparr>song_skipped := song_skipped c2 + 1\<rparr> else c2)
         else c1)"

text \<open>Lines 1290 to 1313: the loop of \<open>download_worker\<close>, which leaves by \<open>break\<close>.\<close>

fun song_drain :: "settings \<Rightarrow> song_counters \<Rightarrow> song_completion list \<Rightarrow> song_counters" where
  "song_drain cfg c [] = c"
| "song_drain cfg c (x # xs) =
     (if \<not> song_flag_in_loop x then c
      else song_drain cfg (record_song (fst (download_single_song cfg (song_item_env x) (song_url x))) c) xs)"

text \<open>
  \<open>download_worker\<close>: the loop, then the flag is read once more (line 1315) to choose the
  final call of \<open>download_complete\<close>. Every call of \<open>download_single_song\<close> runs its own
  version check.
\<close>

record worker_result =
  song_report :: "bool \<times> string"
  song_final :: song_counters
  song_effects :: "effect list"

definition download_worker :: "settings \<Rightarrow> song_completion list \<Rightarrow> bool \<Rightarrow> worker_result" where
  "download_worker cfg items flag_after =
     (let c = song_drain cfg \<lparr>song_completed = 0, song_skipped = 0, song_processed = 0\<rparr> items;
          n = song_completed c - song_skipped c
      in \<lparr>song_report =
            (if flag_after
             then (True, if song_skipped c > 0
                         then ''Done! '' @ show_nat n @ '' downloaded, ''
                                @ show_nat (song_skipped c) @ '' already existed''
                         else ''Downloaded '' @ show_nat n @ '' songs!'')
             else (False, ''Cancelled'')),
          song_final = c,
          song_effects =
            concat (map (\<lambda>x. snd (download_single_song cfg (song_item_env x) (song_url x))) items)\<rparr>)"

section \<open>The application: start, cancel and completion\<close>

text \<open>
  What the commands of the window read and write: the flag \<open>self.is_downloading\<close>, the
  state of three buttons (\<open>True\<close> for \<open>"normal"\<close>, \<open>False\<close> for \<open>"disabled"\<close>), whether
  a Spotify client is connected, the text of the URL field, the settings, what has been
  shown to the user so far and the worker threads started so far.
\<close>

datatype ui_event =
    ProgressBar nat
  | Status string
  | StatusOk string
  | StatusFail string
  | Log string string
  | ShowInfo string string
  | ShowWarning string string
  | ShowError string string

datatype thread =
    DownloadWorker "string list"
  | BatchDownloadWorker "string list"
  | FetchLiked int

record app =
  is_downloading :: bool
  download_btn :: bool
  liked_btn :: bool
  cancel_btn :: bool
  spotify_client :: bool
  url_entry :: string
  config :: settings
  ui :: "ui_event list"
  threads :: "thread list"

definition emit :: "ui_event list \<Rightarrow> app \<Rightarrow> app" where
  "emit es s = s\<lparr>ui := ui s @ es\<rparr>"

definition start_thread :: "thread \<Rightarrow> app \<Rightarrow> app" where
  "start_thread t s = s\<lparr>threads := threads s @ [t]\<rparr>"

text \<open>Lines 1328 to 1334.\<close>

definition set_downloading_state :: "bool \<Rightarrow> app \<Rightarrow> app" where
  "set_downloading_state downloading s =
     s\<lparr>is_downloading := downloading,
       download_btn := \<not> downloading,
       liked_btn := \<not> (downloading \<or> \<not> spotify_client s),
       cancel_btn := downloading\<rparr>"

text \<open>
  Lines 1336 to 1348. \<open>StatusOk\<close> and \<open>StatusFail\<close> stand for the status line with the
  check mark in the accent colour and with the cross in red.
\<close>

definition download_complete :: "bool \<Rightarrow> string \<Rightarrow> app \<Rightarrow> app" where
  "download_complete success message s =
     (let s1 = emit [ProgressBar (if success then 1 else 0)] (set_downloading_state False s)
      in if success
         then emit [StatusOk message, Log message ''success'',
                    ShowInfo ''Success''
                      (message @ [CHR 0x0A, CHR 0x0A] @ ''Saved to: '' @ output_folder (config s))] s1
         else emit ([StatusFail message, Log message ''error'']
                    @ (if \<not> py_in ''cancel'' (py_lower message)
                       then [ShowError ''Error'' message] else [])) s1)"

text \<open>Lines 1350 to 1353.\<close>

definition cancel_download :: "app \<Rightarrow> app" where
  "cancel_download s =
     (if is_downloading s
      then emit [Log ''Cancelling...'' ''warning''] (s\<lparr>is_downloading := False\<rparr>)
      else s)"

text \<open>Lines 1033 to 1056.\<close>

definition start_download :: "string list \<Rightarrow> app \<Rightarrow> app" where
  "start_download urls s =
     start_thread (DownloadWorker urls)
       (emit [ProgressBar 0,
              Log (''Starting download of '' @ show_nat (length urls) @ '' song(s)...'') ''info'']
          (set_downloading_state True s))"

definition start_batch_download :: "string \<Rightarrow> app \<Rightarrow> app" where
  "start_batch_download url s =
     start_thread (BatchDownloadWorker [url])
       (emit [ProgressBar 0,
              Log (''Downloading '' @ (if py_in ''/playlist/'' url then ''playlist'' else ''album'')
                     @ ''...'') ''info'']
          (set_downloading_state True s))"

definition start_batch_download_urls :: "string list \<Rightarrow> app \<Rightarrow> app" where
  "start_batch_download_urls urls s =
     start_thread (BatchDownloadWorker urls)
       (emit [ProgressBar 0,
              Log (''Downloading '' @ show_nat (length urls) @ '' songs...'') ''info'']
          (set_downloading_state True s))"

text \<open>Lines 705 to 710. \<open>url.split('?')[0]\<close> is the text before the first question mark.\<close>

definition clean_url :: "string \<Rightarrow> string" where
  "clean_url url = takeWhile (\<lambda>c. c \<noteq> CHR ''?'') url"

definition drop_prefix :: "string \<Rightarrow> string \<Rightarrow> string option" where
  "drop_prefix p s = (if prefix p s then Some (drop (length p) s) else None)"

definition is_alnum :: "char \<Rightarrow> bool" where
  "is_alnum c =
     (let n = (of_char c :: nat)
      in (48 \<le> n \<and> n \<le> 57) \<or> (65 \<le> n \<and> n \<le> 90) \<or> (97 \<le> n \<and> n \<le> 122))"

text \<open>\<open>re.match(r'https?://open\.spotify\.com/(track|album|playlist|artist)/[a-zA-Z0-9]+', ...)\<close>\<close>

definition validate_url :: "string \<Rightarrow> bool" where
  "validate_url url =
     (case drop_prefix ''http'' (clean_url url) of
        None \<Rightarrow> False
      | Some r1 \<Rightarrow>
          (case drop_prefix ''://open.spotify.com/''
                  (case drop_prefix ''s'' r1 of Some r \<Rightarrow> r | None \<Rightarrow> r1) of
             None \<Rightarrow> False
           | Some r3 \<Rightarrow>
               list_ex
                 (\<lambda>kind. case drop_prefix kind r3 of
                            None \<Rightarrow> False
                          | Some r4 \<Rightarrow>
                              (case drop_prefix ''/'' r4 of
                                 None \<Rightarrow> False
                               | Some r5 \<Rightarrow> (case r5 of [] \<Rightarrow> False | c # _ \<Rightarrow> is_alnum c)))
                 [''track'', ''album'', ''playlist'', ''artist'']))"

text \<open>Lines 953 to 970. The function does not read \<open>self.is_downloading\<close>.\<close>

definition start_url_download :: "app \<Rightarrow> app" where
  "start_url_download s =
     (let url = py_strip (url_entry s)
      in if url = [] then emit [ShowWarning ''Warning'' ''Please enter a Spotify URL''] s
         else if \<not> validate_url url then emit [ShowError ''Error'' ''Invalid Spotify URL''] s
         else
           let clean = clean_url url
           in if py_in ''/playlist/'' clean \<or> py_in ''/album/'' clean
              then start_batch_download clean s
              else start_download [clean] s)"

text \<open>
  The answer to the dialog of \<open>download_liked_songs\<close>, as lines 985 to 994 read it:
  nothing or an empty text; a text that \<open>int\<close> rejects; or a limit (9999 for \<open>all\<close>).
\<close>

datatype dialog_answer = Dismissed | NotANumber | Limit int

text \<open>Lines 972 to 1000. The dialog is opened only after the two checks.\<close>

definition download_liked_songs :: "dialog_answer \<Rightarrow> app \<Rightarrow> app" where
  "download_liked_songs answer s =
     (if \<not> spotify_client s then emit [ShowWarning ''Warning'' ''Please connect Spotify first''] s
      else if is_downloading s then s
      else (case answer of
              Dismissed \<Rightarrow> s
            | NotANumber \<Rightarrow> emit [ShowError ''Error'' ''Enter a valid number''] s
            | Limit n \<Rightarrow>
                start_thread (FetchLiked n)
                  (emit [Status ''Fetching liked songs...''] (set_downloading_state True s))))"

text \<open>Lines 922 to 949, as far as they touch the fields above: a login that succeeds
  enables the button of the liked songs whatever the flag is; a logout disables it.\<close>

definition login :: "app \<Rightarrow> app" where
  "login s = s\<lparr>spotify_client := True, liked_btn := True\<rparr>"

definition logout :: "app \<Rightarrow> app" where
  "logout s = emit [Log ''Logged out'' ''info''] (s\<lparr>spotify_client := False, liked_btn := False\<rparr>)"

text \<open>Lines 240 to 243 and the construction of the buttons: the window as it opens.\<close>

definition initial_app :: "settings \<Rightarrow> app" where
  "initial_app cfg =
     \<lparr>is_downloading = False, download_btn = True, liked_btn = False, cancel_btn = False,
      spotify_client = False, url_entry = [], config = cfg, ui = [], threads = []\<rparr>"

text \<open>
  The buttons. Lines 466 to 475, 411 to 419 and 625 to 634 bind \<open>start_url_download\<close>,
  \<open>download_liked_songs\<close> and \<open>cancel_download\<close> to one button each and to nothing
  else. The toolkit calls the command of a button only while the state of the button is
  \<open>"normal"\<close>, so a click on a disabled button does nothing.
\<close>

definition click_download :: "app \<Rightarrow> app" where
  "click_download s = (if download_btn s then start_url_download s else s)"

definition click_liked :: "dialog_answer \<Rightarrow> app \<Rightarrow> app" where
  "click_liked answer s = (if liked_btn s then download_liked_songs answer s else s)"

definition click_cancel :: "app \<Rightarrow> app" where
  "click_cancel s = (if cancel_btn s then cancel_download s else s)"

text \<open>
  The states the window can be in: from the initial one, by typing into the URL field, by
  a click on one of the three buttons, by a login or a logout, and by a worker that posts
  its final call of \<open>download_complete\<close> or the liked songs it fetched.
\<close>

inductive reachable :: "settings \<Rightarrow> app \<Rightarrow> bool" for cfg :: settings where
  r_init: "reachable cfg (initial_app cfg)"
| r_type: "reachable cfg s \<Longrightarrow> reachable cfg (s\<lparr>url_entry := typed\<rparr>)"
| r_url: "reachable cfg s \<Longrightarrow> reachable cfg (click_download s)"
| r_liked: "reachable cfg s \<Longrightarrow> reachable cfg (click_liked answer s)"
| r_fetched: "reachable cfg s \<Longrightarrow> reachable cfg (start_batch_download_urls urls s)"
| r_cancel: "reachable cfg s \<Longrightarrow> reachable cfg (click_cancel s)"
| r_complete: "reachable cfg s \<Longrightarrow> reachable cfg (download_complete success message s)"
| r_login: "reachable cfg s \<Longrightarrow> reachable cfg (login s)"
| r_logout: "reachable cfg s \<Longrightarrow> reachable cfg (logout s)"

section \<open>Notions used to state the properties\<close>




text \<open>No counter of \<open>c\<close> is above the same counter of \<open>c'\<close>.\<close>

definition counters_le :: "counters \<Rightarrow> counters \<Rightarrow> bool" where
  "counters_le c c' \<longleftrightarrow>
     downloaded c \<le> downloaded c' \<and> skipped c \<le> skipped c'
     \<and> errors c \<le> errors c' \<and> completed c \<le> completed c'"

text \<open>
  The two grammars, as the comment at lines 1191 and 1192 gives them:
  \<^verbatim>\<open>v4.x: spotdl download <url> --output <template> --format <fmt>\<close> and
  \<^verbatim>\<open>v3.x: spotdl <url> --output <folder> --output-format <fmt> --path-template <template>\<close>,
  each after the interpreter and \<open>-m\<close>.
\<close>

definition v4_grammar :: "string list \<Rightarrow> bool" where
  "v4_grammar cmd \<longleftrightarrow>
     (\<exists>exe url template fmt.
        cmd = [exe, ''-m'', ''spotdl'', ''download'', url, ''--output'', template, ''--format'', fmt])"

definition v3_grammar :: "string list \<Rightarrow> bool" where
  "v3_grammar cmd \<longleftrightarrow>
     (\<exists>exe url folder fmt template.
        cmd = [exe, ''-m'', ''spotdl'', url, ''--output'', folder, ''--output-format'', fmt,
               ''--path-template'', template])"

text \<open>How many times a list of effects starts the version check.\<close>

definition probes :: "settings \<Rightarrow> effect list \<Rightarrow> nat" where
  "probes cfg effs = length (filter (\<lambda>e. e = Spawn (version_cmd cfg)) effs)"

text \<open>What a command has shown to the user: the events of \<open>s'\<close> that \<open>s\<close> did not have.\<close>

definition notified :: "app \<Rightarrow> app \<Rightarrow> ui_event list" where
  "notified s s' = drop (length (ui s)) (ui s')"

text \<open>The window after the final call of \<open>download_complete\<close> that a batch posts.\<close>

definition finish_batch :: "batch_result \<Rightarrow> app \<Rightarrow> app" where
  "finish_batch r s = download_complete (fst (report r)) (snd (report r)) s"

text \<open>The tags that the calls of \<open>download_single\<close> of a batch return, one for every
  submitted URL.\<close>

definition outcomes :: "settings \<Rightarrow> run_result \<Rightarrow> completion list \<Rightarrow> string list" where
  "outcomes cfg ver items =
     map (\<lambda>x. fst (fst (download_single cfg (detect_is_v4 ver) (item_env x) (item_url x)))) items"

text \<open>Two facts that hold in every state of the window: while the flag is set the
  Download button is disabled, and the button of the liked songs is enabled only with a
  client connected.\<close>

definition buttons_ok :: "app \<Rightarrow> bool" where
  "buttons_ok s \<longleftrightarrow> (is_downloading s \<longrightarrow> \<not> download_btn s) \<and> (liked_btn s \<longrightarrow> spotify_client s)"

section \<open>Facts about Python text\<close>

lemma py_in_sublist: "py_in sub s = sublist sub s"
  by (induction s) (simp_all add: sublist_Cons_right)

lemma py_in_iff: "py_in sub s \<longleftrightarrow> (\<exists>pre post. s = pre @ sub @ post)"
  by (simp add: py_in_sublist sublist_def)

section \<open>The version detector\<close>

text \<open>
  C10. The detector chooses the v4 dialect exactly when the text \<open>4.\<close> occurs somewhere
  in the standard output followed by the standard error of the version check. So a check
  that prints \<open>3.4.2\<close> is taken for version 4, and the download command is then built in
  the v4 grammar.
\<close>

theorem detect_is_v4_marker:
  "(detect_is_v4 (Inr p) \<longleftrightarrow> (\<exists>pre post. stdout p @ stderr p = pre @ ''4.'' @ post))
   \<and> detect_is_v4 (Inr \<lparr>returncode = 0, stdout = ''3.4.2'', stderr = ''''\<rparr>)
   \<and> download_cmd cfg (detect_is_v4 (Inr \<lparr>returncode = 0, stdout = ''3.4.2'', stderr = ''''\<rparr>)) url
       = [executable cfg, ''-m'', ''spotdl'', ''download'', url, ''--output'',
          os_path_join (output_folder cfg) ''{artist} - {title}.{output-ext}'',
          ''--format'', audio_format cfg]"
proof -
  have a: "detect_is_v4 (Inr p) \<longleftrightarrow> (\<exists>pre post. stdout p @ stderr p = pre @ ''4.'' @ post)"
    by (simp add: detect_is_v4_def py_in_iff)
  have b: "detect_is_v4 (Inr \<lparr>returncode = 0, stdout = ''3.4.2'', stderr = ''''\<rparr>)"
    by (simp add: detect_is_v4_def)
  from a b show ?thesis by (simp add: download_cmd_def)
qed

text \<open>
  C8, as stated, fails: a version check that runs and exits with a non-zero status is not
  an exception, and its output decides the dialect. Here the interpreter reports that the
  module is missing, exits with status 1, and its path holds \<open>4.\<close>: the v4 dialect is
  chosen, not the legacy one.
\<close>

theorem detect_is_v4_nonzero_exit_counterexample:
  "returncode \<lparr>returncode = 1, stdout = '''',
      stderr = ''/opt/python-3.4.1/bin/python: No module named spotdl''\<rparr> \<noteq> 0
   \<and> detect_is_v4 (Inr \<lparr>returncode = 1, stdout = '''',
      stderr = ''/opt/python-3.4.1/bin/python: No module named spotdl''\<rparr>)"
  by (simp add: detect_is_v4_def)

text \<open>
  C8, amended. When starting the version check raises an exception, the detector does not
  raise and chooses the legacy dialect. When the version check runs, its exit status plays
  no part: the legacy dialect is chosen exactly when \<open>4.\<close> does not occur in its output.
\<close>

theorem detect_is_v4_on_failure:
  "detect_is_v4 (Inl e) = False
   \<and> detect_is_v4 (Inr (p\<lparr>returncode := rc\<rparr>)) = detect_is_v4 (Inr p)
   \<and> (detect_is_v4 (Inr p) = False \<longleftrightarrow> \<not> (\<exists>pre post. stdout p @ stderr p = pre @ ''4.'' @ post))"
  by (simp add: detect_is_v4_def py_in_iff)

section \<open>The first quoted text\<close>

















section \<open>Classification of a finished download\<close>




section \<open>The counters of a batch\<close>





lemma counters_le_refl: "counters_le c c"
  by (simp add: counters_le_def)


lemma classify_output_tag: "fst (classify_output p) \<in> {''downloaded'', ''skipped'', ''error''}"
  by (simp add: classify_output_def Let_def)

lemma download_single_tag:
  "flag_on_entry env \<Longrightarrow>
     fst (fst (download_single cfg v env url)) \<in> {''downloaded'', ''skipped'', ''error''}"
  using classify_output_tag by (auto simp: download_single_def split: sum.splits)

lemma drain_stop: "\<not> flag_in_loop x \<Longrightarrow> drain cfg v c (x # xs) = (True, c, [])"
  by simp

lemma drain_go:
  "flag_in_loop x \<Longrightarrow>
     drain cfg v c (x # xs) =
       (fst (drain cfg v (record_result (fst (download_single cfg v (item_env x) (item_url x))) c) xs),
        fst (snd (drain cfg v (record_result (fst (download_single cfg v (item_env x) (item_url x))) c) xs)),
        record_result (fst (download_single cfg v (item_env x) (item_url x))) c
          # snd (snd (drain cfg v (record_result (fst (download_single cfg v (item_env x) (item_url x))) c) xs)))"
  by (simp add: Let_def split: prod.splits)





lemma drain_go_final:
  "flag_in_loop x \<Longrightarrow>
     fst (snd (drain cfg v c (x # xs))) =
       fst (snd (drain cfg v (record_result (fst (download_single cfg v (item_env x) (item_url x))) c) xs))"
  by (simp only: drain_go) simp

lemma drain_go_cancelled:
  "flag_in_loop x \<Longrightarrow>
     fst (drain cfg v c (x # xs)) =
       fst (drain cfg v (record_result (fst (download_single cfg v (item_env x) (item_url x))) c) xs)"
  by (simp only: drain_go) simp


lemma batch_final: "final_counters (batch_download_worker cfg ver items)
    = fst (snd (drain cfg (detect_is_v4 ver) zero_counters items))"
  by (simp add: batch_download_worker_def Let_def split: prod.splits)


lemma batch_cancelled: "cancelled_in_loop (batch_download_worker cfg ver items)
    = fst (drain cfg (detect_is_v4 ver) zero_counters items)"
  by (simp add: batch_download_worker_def Let_def split: prod.splits)




section \<open>The final report of a batch\<close>

lemma py_in_set: "py_in sub s \<Longrightarrow> set sub \<subseteq> set s"
  unfolding py_in_sublist by (rule set_mono_sublist)

lemma py_lower_append: "py_lower (a @ b) = py_lower a @ py_lower b"
  by (simp add: py_lower_def)

lemma digit_char_code: "d < 10 \<Longrightarrow> (of_char (digit_char d) :: nat) = 48 + d"
  by (simp add: digit_char_def)

lemma lower_digit: "d < 10 \<Longrightarrow> lower_char (digit_char d) = digit_char d"
  by (simp add: lower_char_def digit_char_code)

lemma digit_not_c: "d < 10 \<Longrightarrow> digit_char d \<noteq> CHR ''c''"
proof
  assume "d < 10" and "digit_char d = CHR ''c''"
  then have "(of_char (CHR ''c'') :: nat) = 48 + d" using digit_char_code [of d] by simp
  with \<open>d < 10\<close> show False by simp
qed

lemma show_nat_no_c: "CHR ''c'' \<notin> set (py_lower (show_nat n))"
proof (induction n rule: show_nat.induct)
  case (1 n)
  show ?case
  proof (cases "n < 10")
    case True
    then have "py_lower (show_nat n) = [digit_char n]"
      by (simp add: show_nat.simps [of n] py_lower_def lower_digit)
    with True digit_not_c [of n] show ?thesis by auto
  next
    case False
    have m: "n mod 10 < 10" by simp
    from False have "py_lower (show_nat n) = py_lower (show_nat (n div 10)) @ [digit_char (n mod 10)]"
      by (simp add: show_nat.simps [of n] py_lower_append) (simp add: py_lower_def lower_digit)
    with "1.IH" [OF False] digit_not_c [OF m] show ?thesis by auto
  qed
qed

lemma failed_message_no_cancel:
  "\<not> py_in ''cancel'' (py_lower (show_nat n @ '' songs failed to download''))"
proof
  assume "py_in ''cancel'' (py_lower (show_nat n @ '' songs failed to download''))"
  then have "set ''cancel'' \<subseteq> set (py_lower (show_nat n @ '' songs failed to download''))"
    by (rule py_in_set)
  then have "CHR ''c'' \<in> set (py_lower (show_nat n)) \<union> set (py_lower '' songs failed to download'')"
    by (simp add: py_lower_append)
  moreover have "CHR ''c'' \<notin> set (py_lower '' songs failed to download'')" by code_simp
  ultimately show False using show_nat_no_c by blast
qed

lemma cancelled_message: "py_in ''cancel'' (py_lower ''Cancelled'')"
  by code_simp

lemma batch_report_eq:
  "report (batch_download_worker cfg ver items)
     = (if cancelled_in_loop (batch_download_worker cfg ver items) then (False, ''Cancelled'')
        else final_report (final_counters (batch_download_worker cfg ver items)))"
  by (simp add: batch_download_worker_def Let_def split: prod.splits)

lemma final_report_success: "fst (final_report c) \<longleftrightarrow> downloaded c > 0 \<or> skipped c > 0"
  by (simp add: final_report_def Let_def)

lemma final_report_failed:
  "downloaded c = 0 \<Longrightarrow> skipped c = 0 \<Longrightarrow> errors c > 0 \<Longrightarrow>
     final_report c = (False, show_nat (errors c) @ '' songs failed to download'')"
  by (simp add: final_report_def)

lemma notified_complete_ok:
  "notified s (download_complete True m s)
     = [ProgressBar 1, StatusOk m, Log m ''success'',
        ShowInfo ''Success'' (m @ [CHR 0x0A, CHR 0x0A] @ ''Saved to: '' @ output_folder (config s))]"
  by (simp add: notified_def download_complete_def emit_def set_downloading_state_def Let_def)

lemma notified_complete_fail:
  "notified s (download_complete False m s)
     = [ProgressBar 0, StatusFail m, Log m ''error'']
       @ (if \<not> py_in ''cancel'' (py_lower m) then [ShowError ''Error'' m] else [])"
  by (simp add: notified_def download_complete_def emit_def set_downloading_state_def Let_def)

section \<open>Version checks and command grammars\<close>

lemma v4_grammar_length: "v4_grammar cmd \<Longrightarrow> length cmd = 9"
  by (auto simp: v4_grammar_def)

lemma v3_grammar_length: "v3_grammar cmd \<Longrightarrow> length cmd = 10"
  by (auto simp: v3_grammar_def)

lemma download_cmd_v4: "v4_grammar (download_cmd cfg True url) \<and> \<not> v3_grammar (download_cmd cfg True url)"
proof
  show "v4_grammar (download_cmd cfg True url)"
    unfolding v4_grammar_def download_cmd_def by (simp only: if_True) blast
  show "\<not> v3_grammar (download_cmd cfg True url)"
    using v3_grammar_length [of "download_cmd cfg True url"] by (auto simp: download_cmd_def)
qed

lemma download_cmd_v3: "v3_grammar (download_cmd cfg False url) \<and> \<not> v4_grammar (download_cmd cfg False url)"
proof
  show "v3_grammar (download_cmd cfg False url)"
    unfolding v3_grammar_def download_cmd_def by (simp only: if_False) blast
  show "\<not> v4_grammar (download_cmd cfg False url)"
    using v4_grammar_length [of "download_cmd cfg False url"] by (auto simp: download_cmd_def)
qed

lemma download_cmd_not_version: "download_cmd cfg v url \<noteq> version_cmd cfg"
proof
  assume "download_cmd cfg v url = version_cmd cfg"
  then have "length (download_cmd cfg v url) = length (version_cmd cfg)" by simp
  then show False by (simp add: download_cmd_def version_cmd_def split: if_splits)
qed

lemma probes_append: "probes cfg (a @ b) = probes cfg a + probes cfg b"
  by (simp add: probes_def)

lemma probes_concat: "probes cfg (concat (map f xs)) = sum_list (map (\<lambda>x. probes cfg (f x)) xs)"
  by (induction xs) (simp_all add: probes_append, simp add: probes_def)

lemma download_single_effects:
  "snd (download_single cfg v env url) = (if flag_on_entry env then [Spawn (download_cmd cfg v url)] else [])"
  by (simp add: download_single_def split: sum.splits)

lemma download_single_probes: "probes cfg (snd (download_single cfg v env url)) = 0"
  using download_cmd_not_version [of cfg v url]
  by (simp add: download_single_effects probes_def)

lemma download_single_song_effects:
  "set (snd (download_single_song cfg env url))
     \<subseteq> {Spawn (version_cmd cfg),
         Spawn (download_cmd cfg (detect_is_v4 (ver_check env)) url),
         Terminate (download_cmd cfg (detect_is_v4 (ver_check env)) url)}"
  by (auto simp: download_single_song_def Let_def split: sum.splits option.splits py_exception.splits)

lemma download_single_song_probes:
  "probes cfg (snd (download_single_song cfg env url)) = (if song_flag_on_entry env then 1 else 0)"
  using download_cmd_not_version [of cfg "detect_is_v4 (ver_check env)" url]
  by (auto simp: download_single_song_def Let_def probes_def
           split: sum.splits option.splits py_exception.splits)

lemma sum_list_indicator: "sum_list (map (\<lambda>x. if P x then 1 else 0) xs) = length (filter P xs)"
  by (induction xs) simp_all

lemma batch_effects:
  "effects (batch_download_worker cfg ver items)
     = Spawn (version_cmd cfg)
       # concat (map (\<lambda>x. snd (download_single cfg (detect_is_v4 ver) (item_env x) (item_url x))) items)"
  by (simp add: batch_download_worker_def Let_def split: prod.splits)

lemma worker_effects:
  "song_effects (download_worker cfg songs flag_after)
     = concat (map (\<lambda>x. snd (download_single_song cfg (song_item_env x) (song_url x))) songs)"
  by (simp add: download_worker_def Let_def)

lemma batch_probes: "probes cfg (effects (batch_download_worker cfg ver items)) = 1"
proof -
  have "probes cfg (concat (map (\<lambda>x. snd (download_single cfg (detect_is_v4 ver) (item_env x) (item_url x))) items)) = 0"
    by (simp add: probes_concat download_single_probes)
  then show ?thesis
    unfolding batch_effects using probes_append [of cfg "[Spawn (version_cmd cfg)]"]
    by (simp add: probes_def)
qed

lemma worker_probes:
  "probes cfg (song_effects (download_worker cfg songs flag_after))
     = length (filter (\<lambda>x. song_flag_on_entry (song_item_env x)) songs)"
  unfolding worker_effects probes_concat download_single_song_probes
  by (rule sum_list_indicator)

lemma batch_spawned:
  assumes "Spawn cmd \<in> set (effects (batch_download_worker cfg ver items))" and "cmd \<noteq> version_cmd cfg"
  shows "\<exists>url. cmd = download_cmd cfg (detect_is_v4 ver) url"
proof -
  from assms obtain x where "x \<in> set items"
    and "Spawn cmd \<in> set (snd (download_single cfg (detect_is_v4 ver) (item_env x) (item_url x)))"
    unfolding batch_effects by auto
  then have "cmd = download_cmd cfg (detect_is_v4 ver) (item_url x)"
    by (simp add: download_single_effects split: if_splits)
  then show ?thesis ..
qed

lemma worker_spawned:
  assumes "Spawn cmd \<in> set (song_effects (download_worker cfg songs flag_after))" and "cmd \<noteq> version_cmd cfg"
  shows "\<exists>v url. cmd = download_cmd cfg v url"
proof -
  from assms obtain x where "x \<in> set songs"
    and "Spawn cmd \<in> set (snd (download_single_song cfg (song_item_env x) (song_url x)))"
    unfolding worker_effects by auto
  with download_single_song_effects [of cfg "song_item_env x" "song_url x"] assms(2)
  have "cmd = download_cmd cfg (detect_is_v4 (ver_check (song_item_env x))) (song_url x)"
    by auto
  then show ?thesis by blast
qed

section \<open>Cancellation inside one download\<close>

lemma download_single_cancel_on_entry:
  "\<not> flag_on_entry env \<Longrightarrow> download_single cfg v env url = ((''cancelled'', None), [])"
  by (simp add: download_single_def)

lemma download_single_song_cancel_on_entry:
  "\<not> song_flag_on_entry env \<Longrightarrow> download_single_song cfg env url = ((None, None), [])"
  by (simp add: download_single_song_def)

lemma download_single_once_started:
  "flag_on_entry env \<Longrightarrow>
     fst (fst (download_single cfg v env url)) \<noteq> ''cancelled''
     \<and> snd (download_single cfg v env url) = [Spawn (download_cmd cfg v url)]"
proof -
  assume f: "flag_on_entry env"
  have "fst (fst (download_single cfg v env url)) \<in> {''downloaded'', ''skipped'', ''error''}"
    using f by (rule download_single_tag)
  then have "fst (fst (download_single cfg v env url)) \<noteq> ''cancelled''" by auto
  moreover have "snd (download_single cfg v env url) = [Spawn (download_cmd cfg v url)]"
    using f by (simp add: download_single_def split: sum.splits)
  ultimately show ?thesis by simp
qed

lemma read_lines_cancel: "read_lines ls = None \<longleftrightarrow> (\<exists>l \<in> set ls. \<not> snd l)"
  by (induction ls) (auto split: if_splits)

lemma download_single_song_cancel_while_running:
  "song_flag_on_entry env \<Longrightarrow> popen env = Inr proc \<Longrightarrow> (line, False) \<in> set (out_lines proc) \<Longrightarrow>
     download_single_song cfg env url
       = ((None, None),
          [Spawn (version_cmd cfg),
           Spawn (download_cmd cfg (detect_is_v4 (ver_check env)) url),
           Terminate (download_cmd cfg (detect_is_v4 (ver_check env)) url)])"
proof -
  assume a: "song_flag_on_entry env" "popen env = Inr proc" "(line, False) \<in> set (out_lines proc)"
  from a(3) have "read_lines (out_lines proc) = None"
    unfolding read_lines_cancel by force
  with a(1,2) show ?thesis by (simp add: download_single_song_def Let_def)
qed

text \<open>
  C3 at the input where the claim and \<open>download_single\<close> part. Both calls find the flag
  set on entry, and the flag is cleared while the process runs. \<open>download_single\<close> has
  no reading of the flag after its entry: the process runs to its end, is not terminated,
  and the result is \<open>downloaded\<close>. \<open>download_single_song\<close>, which reads the flag after
  every line of output, terminates the process and returns \<open>(None, None)\<close>.
\<close>

theorem download_single_not_cancelled_while_running:
  "download_single \<lparr>executable = ''python'', output_folder = ''/m'', audio_format = ''mp3''\<rparr> False
      \<lparr>flag_on_entry = True,
       run = Inr \<lparr>returncode = 0, stdout = ''Downloaded'', stderr = ''''\<rparr>\<rparr> ''u''
     = ((''downloaded'', None),
        [Spawn [''python'', ''-m'', ''spotdl'', ''u'', ''--output'', ''/m'',
                ''--output-format'', ''mp3'', ''--path-template'', ''{artist} - {title}.{ext}'']])
   \<and> download_single_song \<lparr>executable = ''python'', output_folder = ''/m'', audio_format = ''mp3''\<rparr>
      \<lparr>song_flag_on_entry = True,
       ver_check = Inr \<lparr>returncode = 0, stdout = ''3.9.1'', stderr = ''''\<rparr>,
       popen = Inr \<lparr>out_lines = [(''Downloaded'', False)], finish = Inr 0\<rparr>\<rparr> ''u''
     = ((None, None),
        [Spawn [''python'', ''-m'', ''spotdl'', ''--version''],
         Spawn [''python'', ''-m'', ''spotdl'', ''u'', ''--output'', ''/m'',
                ''--output-format'', ''mp3'', ''--path-template'', ''{artist} - {title}.{ext}''],
         Terminate [''python'', ''-m'', ''spotdl'', ''u'', ''--output'', ''/m'',
                ''--output-format'', ''mp3'', ''--path-template'', ''{artist} - {title}.{ext}'']])"
  by code_simp

section \<open>Starting while a batch is running\<close>

lemmas app_ops =
  emit_def start_thread_def set_downloading_state_def download_complete_def cancel_download_def
  start_download_def start_batch_download_def start_batch_download_urls_def
  start_url_download_def download_liked_songs_def login_def logout_def initial_app_def
  click_download_def click_liked_def click_cancel_def

lemma buttons_ok_click_download: "buttons_ok s \<Longrightarrow> buttons_ok (click_download s)"
  by (auto simp: buttons_ok_def app_ops Let_def)

lemma buttons_ok_click_liked: "buttons_ok s \<Longrightarrow> buttons_ok (click_liked answer s)"
  by (cases answer) (auto simp: buttons_ok_def app_ops)

lemma buttons_ok_complete: "buttons_ok (download_complete success message s)"
  by (simp add: buttons_ok_def app_ops Let_def)

lemma reachable_buttons_ok: "reachable cfg s \<Longrightarrow> buttons_ok s"
proof (induction rule: reachable.induct)
  case r_init
  show ?case by (simp add: buttons_ok_def initial_app_def)
next
  case (r_type s typed)
  from r_type.IH show ?case by (simp add: buttons_ok_def)
next
  case (r_url s)
  from r_url.IH show ?case by (rule buttons_ok_click_download)
next
  case (r_liked s answer)
  from r_liked.IH show ?case by (rule buttons_ok_click_liked)
next
  case (r_fetched s urls)
  show ?case by (simp add: buttons_ok_def app_ops)
next
  case (r_cancel s)
  from r_cancel.IH show ?case by (simp add: buttons_ok_def app_ops)
next
  case (r_complete s success message)
  show ?case by (rule buttons_ok_complete)
next
  case (r_login s)
  from r_login.IH show ?case by (simp add: buttons_ok_def app_ops)
next
  case (r_logout s)
  from r_logout.IH show ?case by (simp add: buttons_ok_def app_ops)
qed

lemma download_liked_songs_guard:
  "is_downloading s \<Longrightarrow> spotify_client s \<Longrightarrow> download_liked_songs answer s = s"
  by (simp add: download_liked_songs_def)

text \<open>
  C9. In every state of the window in which the downloading flag is set, each of the two
  start commands is a no-op: a click on Download and a click on the button of the liked
  songs both leave the state as it is, so no thread and no batch is started.
  \<open>download_liked_songs\<close> returns at its own check of the flag;
  \<open>start_url_download\<close>, which has no such check, is not called, because its button is
  disabled for as long as the flag is set.
\<close>

theorem start_while_downloading:
  "(reachable cfg s \<and> is_downloading s \<longrightarrow> click_download s = s \<and> click_liked answer s = s)
   \<and> (is_downloading s' \<and> spotify_client s' \<longrightarrow> download_liked_songs answer s' = s')"
proof -
  have a: "reachable cfg s \<and> is_downloading s \<longrightarrow> click_download s = s \<and> click_liked answer s = s"
  proof
    assume h: "reachable cfg s \<and> is_downloading s"
    then have ok: "buttons_ok s" using reachable_buttons_ok by blast
    from h ok have "\<not> download_btn s" by (simp add: buttons_ok_def)
    then have c1: "click_download s = s" by (simp add: click_download_def)
    have c2: "click_liked answer s = s"
    proof (cases "liked_btn s")
      case True
      with ok have "spotify_client s" by (simp add: buttons_ok_def)
      with h True show ?thesis by (simp add: click_liked_def download_liked_songs_guard)
    next
      case False
      then show ?thesis by (simp add: click_liked_def)
    qed
    from c1 c2 show "click_download s = s \<and> click_liked answer s = s" ..
  qed
  have b: "is_downloading s' \<and> spotify_client s' \<longrightarrow> download_liked_songs answer s' = s'"
    by (simp add: download_liked_songs_guard)
  from a b show ?thesis ..
qed

text \<open>The theorem of C9 in the state that follows a click on Download with a track URL in
  the field and then a login: a second click on Download and a click on the button of
  the liked songs, which the login has enabled, both change nothing.\<close>

theorem start_while_downloading_witness:
  "click_download (login (click_download
        ((initial_app \<lparr>executable = ''python'', output_folder = ''/m'', audio_format = ''mp3''\<rparr>)
           \<lparr>url_entry := ''https://open.spotify.com/track/abc''\<rparr>)))
      = login (click_download
        ((initial_app \<lparr>executable = ''python'', output_folder = ''/m'', audio_format = ''mp3''\<rparr>)
           \<lparr>url_entry := ''https://open.spotify.com/track/abc''\<rparr>))
   \<and> click_liked (Limit 5) (login (click_download
        ((initial_app \<lparr>executable = ''python'', output_folder = ''/m'', audio_format = ''mp3''\<rparr>)
           \<lparr>url_entry := ''https://open.spotify.com/track/abc''\<rparr>)))
      = login (click_download
        ((initial_app \<lparr>executable = ''python'', output_folder = ''/m'', audio_format = ''mp3''\<rparr>)
           \<lparr>url_entry := ''https://open.spotify.com/track/abc''\<rparr>))
   \<and> threads (login (click_download
        ((initial_app \<lparr>executable = ''python'', output_folder = ''/m'', audio_format = ''mp3''\<rparr>)
           \<lparr>url_entry := ''https://open.spotify.com/track/abc''\<rparr>)))
      = [DownloadWorker [''https://open.spotify.com/track/abc'']]"
proof -
  let ?cfg = "\<lparr>executable = ''python'', output_folder = ''/m'', audio_format = ''mp3''\<rparr>"
  let ?s = "login (click_download
        ((initial_app ?cfg)\<lparr>url_entry := ''https://open.spotify.com/track/abc''\<rparr>))"
  have r: "reachable ?cfg ?s"
    by (intro r_login r_url r_type r_init)
  have d: "is_downloading ?s" by code_simp
  have t: "threads ?s = [DownloadWorker [''https://open.spotify.com/track/abc'']]" by code_simp
  from start_while_downloading [of ?cfg ?s "Limit 5"] r d
  have "click_download ?s = ?s \<and> click_liked (Limit 5) ?s = ?s" by blast
  with t show ?thesis by blast
qed

section \<open>The final report and the outcomes of a batch\<close>

lemma record_result_fields:
  "downloaded (record_result r c) = downloaded c + (if fst r = ''downloaded'' then 1 else 0)"
  "skipped (record_result r c) = skipped c + (if fst r = ''skipped'' then 1 else 0)"
  "errors (record_result r c) = errors c + (if fst r = ''error'' then 1 else 0)"
  by (simp_all add: record_result_def Let_def)

lemma drain_not_cancelled_head: "\<not> fst (drain cfg v c (x # xs)) \<Longrightarrow> flag_in_loop x"
  by (cases "flag_in_loop x") simp_all

lemma drain_counts:
  "\<not> fst (drain cfg v c xs) \<Longrightarrow>
     downloaded (fst (snd (drain cfg v c xs)))
       = downloaded c
         + count_list (map (\<lambda>x. fst (fst (download_single cfg v (item_env x) (item_url x)))) xs) ''downloaded''
     \<and> skipped (fst (snd (drain cfg v c xs)))
       = skipped c
         + count_list (map (\<lambda>x. fst (fst (download_single cfg v (item_env x) (item_url x)))) xs) ''skipped''
     \<and> errors (fst (snd (drain cfg v c xs)))
       = errors c
         + count_list (map (\<lambda>x. fst (fst (download_single cfg v (item_env x) (item_url x)))) xs) ''error''"
proof (induction xs arbitrary: c)
  case Nil
  show ?case by simp
next
  case (Cons x xs)
  let ?c1 = "record_result (fst (download_single cfg v (item_env x) (item_url x))) c"
  from Cons.prems have fl: "flag_in_loop x" by (rule drain_not_cancelled_head)
  from Cons.prems have "\<not> fst (drain cfg v ?c1 xs)"
    unfolding drain_go_cancelled [OF fl] .
  from Cons.IH [OF this] show ?case
    unfolding drain_go_final [OF fl] by (simp add: record_result_fields)
qed

lemma batch_counts:
  assumes "\<not> cancelled_in_loop (batch_download_worker cfg ver items)"
  shows "downloaded (final_counters (batch_download_worker cfg ver items))
           = count_list (outcomes cfg ver items) ''downloaded''
     \<and> skipped (final_counters (batch_download_worker cfg ver items))
           = count_list (outcomes cfg ver items) ''skipped''
     \<and> errors (final_counters (batch_download_worker cfg ver items))
           = count_list (outcomes cfg ver items) ''error''"
proof -
  from assms have "\<not> fst (drain cfg (detect_is_v4 ver) zero_counters items)"
    by (simp add: batch_cancelled)
  from drain_counts [OF this] show ?thesis
    by (simp add: batch_final outcomes_def zero_counters_def)
qed

lemma count_list_pos: "0 < count_list xs x \<longleftrightarrow> x \<in> set xs"
  using count_list_0_iff [of xs x] by auto

text \<open>
  C7, as stated, fails in two places. A cancelled batch is reported through the failure
  path: the status line takes the failure style and the log gets an entry of level
  \<open>error\<close>; only the error dialog is left out. And on the single-URL path a batch that
  was not cancelled is always reported as a success: \<open>download_worker\<close> with one URL
  whose download fails (exit status 1, no line with a marker) returns
  \<open>(None, None)\<close> for it and still posts success with the text \<open>Downloaded 0 songs!\<close>.
\<close>

theorem batch_report_counterexample:
  "notified (initial_app \<lparr>executable = ''python'', output_folder = ''/m'', audio_format = ''mp3''\<rparr>)
     (finish_batch
        (batch_download_worker
           \<lparr>executable = ''python'', output_folder = ''/m'', audio_format = ''mp3''\<rparr>
           (Inl (PyException ''no python''))
           [\<lparr>item_url = ''a'',
             item_env = \<lparr>flag_on_entry = True,
                         run = Inr \<lparr>returncode = 0, stdout = ''ok'', stderr = ''''\<rparr>\<rparr>,
             flag_in_loop = False\<rparr>])
        (initial_app \<lparr>executable = ''python'', output_folder = ''/m'', audio_format = ''mp3''\<rparr>))
     = [ProgressBar 0, StatusFail ''Cancelled'', Log ''Cancelled'' ''error'']
   \<and> fst (download_single_song
        \<lparr>executable = ''python'', output_folder = ''/m'', audio_format = ''mp3''\<rparr>
        \<lparr>song_flag_on_entry = True,
         ver_check = Inr \<lparr>returncode = 0, stdout = ''4.2.0'', stderr = ''''\<rparr>,
         popen = Inr \<lparr>out_lines = [(''boom'', True)], finish = Inr 1\<rparr>\<rparr> ''a'')
     = (None, None)
   \<and> song_report (download_worker
        \<lparr>executable = ''python'', output_folder = ''/m'', audio_format = ''mp3''\<rparr>
        [\<lparr>song_url = ''a'',
          song_item_env = \<lparr>song_flag_on_entry = True,
                            ver_check = Inr \<lparr>returncode = 0, stdout = ''4.2.0'', stderr = ''''\<rparr>,
                            popen = Inr \<lparr>out_lines = [(''boom'', True)], finish = Inr 1\<rparr>\<rparr>,
          song_flag_in_loop = True\<rparr>]
        True)
     = (True, ''Downloaded 0 songs!'')"
  by code_simp

text \<open>
  C7, amended. For a batch of \<open>batch_download_worker\<close> that did not leave its loop by the
  cancellation branch, the final call reports success exactly when at least one call of
  \<open>download_single\<close> returned \<open>downloaded\<close> or \<open>skipped\<close>, and a success is shown in an
  information dialog. When none did and at least one returned \<open>error\<close>, the message
  carries the number of calls that returned \<open>error\<close> and is shown in an error dialog. A
  cancelled batch reports \<open>Cancelled\<close> and opens no dialog; it is shown in the status
  line in the failure style and written to the log at level \<open>error\<close>.
\<close>

theorem batch_report:
  assumes "r = batch_download_worker cfg ver items" and "outs = outcomes cfg ver items"
  shows "(\<not> cancelled_in_loop r \<longrightarrow>
          (fst (report r) \<longleftrightarrow> ''downloaded'' \<in> set outs \<or> ''skipped'' \<in> set outs))
    \<and> (fst (report r) \<longrightarrow>
          notified s (finish_batch r s)
            = [ProgressBar 1, StatusOk (snd (report r)), Log (snd (report r)) ''success'',
               ShowInfo ''Success''
                 (snd (report r) @ [CHR 0x0A, CHR 0x0A] @ ''Saved to: '' @ output_folder (config s))])
    \<and> (\<not> cancelled_in_loop r \<and> ''downloaded'' \<notin> set outs \<and> ''skipped'' \<notin> set outs
        \<and> ''error'' \<in> set outs \<longrightarrow>
          report r = (False, show_nat (count_list outs ''error'') @ '' songs failed to download'')
          \<and> notified s (finish_batch r s)
            = [ProgressBar 0, StatusFail (snd (report r)), Log (snd (report r)) ''error'',
               ShowError ''Error'' (snd (report r))])
    \<and> (cancelled_in_loop r \<longrightarrow>
          report r = (False, ''Cancelled'')
          \<and> notified s (finish_batch r s)
            = [ProgressBar 0, StatusFail ''Cancelled'', Log ''Cancelled'' ''error''])"
proof -
  let ?c = "final_counters r"
  have rep: "report r = (if cancelled_in_loop r then (False, ''Cancelled'') else final_report ?c)"
    unfolding assms by (rule batch_report_eq)
  have cnt: "\<not> cancelled_in_loop r \<Longrightarrow>
      downloaded ?c = count_list outs ''downloaded''
      \<and> skipped ?c = count_list outs ''skipped''
      \<and> errors ?c = count_list outs ''error''"
    unfolding assms by (rule batch_counts)
  have p1: "\<not> cancelled_in_loop r \<longrightarrow>
          (fst (report r) \<longleftrightarrow> ''downloaded'' \<in> set outs \<or> ''skipped'' \<in> set outs)"
  proof
    assume h: "\<not> cancelled_in_loop r"
    then have "fst (report r) \<longleftrightarrow> downloaded ?c > 0 \<or> skipped ?c > 0"
      using rep final_report_success [of ?c] by simp
    with cnt [OF h] show "fst (report r) \<longleftrightarrow> ''downloaded'' \<in> set outs \<or> ''skipped'' \<in> set outs"
      by (simp add: count_list_pos)
  qed
  have p2: "fst (report r) \<longrightarrow>
          notified s (finish_batch r s)
            = [ProgressBar 1, StatusOk (snd (report r)), Log (snd (report r)) ''success'',
               ShowInfo ''Success''
                 (snd (report r) @ [CHR 0x0A, CHR 0x0A] @ ''Saved to: '' @ output_folder (config s))]"
    using notified_complete_ok [of s "snd (report r)"] by (simp add: finish_batch_def)
  have p3: "\<not> cancelled_in_loop r \<and> ''downloaded'' \<notin> set outs \<and> ''skipped'' \<notin> set outs
        \<and> ''error'' \<in> set outs \<longrightarrow>
          report r = (False, show_nat (count_list outs ''error'') @ '' songs failed to download'')
          \<and> notified s (finish_batch r s)
            = [ProgressBar 0, StatusFail (snd (report r)), Log (snd (report r)) ''error'',
               ShowError ''Error'' (snd (report r))]"
  proof
    assume h: "\<not> cancelled_in_loop r \<and> ''downloaded'' \<notin> set outs \<and> ''skipped'' \<notin> set outs
        \<and> ''error'' \<in> set outs"
    then have nc: "\<not> cancelled_in_loop r" by simp
    from h cnt [OF nc] have z: "downloaded ?c = 0" "skipped ?c = 0" "errors ?c > 0"
      by (simp_all add: count_list_pos)
    from cnt [OF nc] have en: "errors ?c = count_list outs ''error''" by simp
    have e: "report r = (False, show_nat (count_list outs ''error'') @ '' songs failed to download'')"
      using rep nc final_report_failed [OF z] en by simp
    have "notified s (finish_batch r s)
            = [ProgressBar 0, StatusFail (snd (report r)), Log (snd (report r)) ''error'',
               ShowError ''Error'' (snd (report r))]"
      unfolding finish_batch_def e
      using notified_complete_fail [of s "show_nat (count_list outs ''error'') @ '' songs failed to download''"]
            failed_message_no_cancel [of "count_list outs ''error''"]
      by simp
    with e show "report r = (False, show_nat (count_list outs ''error'') @ '' songs failed to download'')
          \<and> notified s (finish_batch r s)
            = [ProgressBar 0, StatusFail (snd (report r)), Log (snd (report r)) ''error'',
               ShowError ''Error'' (snd (report r))]" by simp
  qed
  have p4: "cancelled_in_loop r \<longrightarrow>
          report r = (False, ''Cancelled'')
          \<and> notified s (finish_batch r s)
            = [ProgressBar 0, StatusFail ''Cancelled'', Log ''Cancelled'' ''error'']"
  proof
    assume h: "cancelled_in_loop r"
    then have e: "report r = (False, ''Cancelled'')" using rep by simp
    have "notified s (finish_batch r s)
            = [ProgressBar 0, StatusFail ''Cancelled'', Log ''Cancelled'' ''error'']"
      unfolding finish_batch_def e
      using notified_complete_fail [of s "''Cancelled''"] cancelled_message
      by simp
    with e show "report r = (False, ''Cancelled'')
          \<and> notified s (finish_batch r s)
            = [ProgressBar 0, StatusFail ''Cancelled'', Log ''Cancelled'' ''error'']" by simp
  qed
  from p1 p2 p3 p4 show ?thesis by (intro conjI)
qed

text \<open>The theorem of C7 at three batches: two URLs of which one is downloaded and one
  fails, one URL whose download fails, and one URL whose loop finds the flag cleared.\<close>

theorem batch_report_witness:
  "fst (report (batch_download_worker
           \<lparr>executable = ''python'', output_folder = ''/m'', audio_format = ''mp3''\<rparr>
           (Inl (PyException ''no python''))
           [\<lparr>item_url = ''a'',
             item_env = \<lparr>flag_on_entry = True,
                         run = Inr \<lparr>returncode = 0, stdout = ''ok'', stderr = ''''\<rparr>\<rparr>,
             flag_in_loop = True\<rparr>,
            \<lparr>item_url = ''b'',
             item_env = \<lparr>flag_on_entry = True,
                         run = Inr \<lparr>returncode = 1, stdout = ''boom'', stderr = ''''\<rparr>\<rparr>,
             flag_in_loop = True\<rparr>]))
   \<and> notified (initial_app \<lparr>executable = ''python'', output_folder = ''/m'', audio_format = ''mp3''\<rparr>)
     (finish_batch
        (batch_download_worker
           \<lparr>executable = ''python'', output_folder = ''/m'', audio_format = ''mp3''\<rparr>
           (Inl (PyException ''no python''))
           [\<lparr>item_url = ''a'',
             item_env = \<lparr>flag_on_entry = True,
                         run = Inr \<lparr>returncode = 1, stdout = ''boom'', stderr = ''''\<rparr>\<rparr>,
             flag_in_loop = True\<rparr>])
        (initial_app \<lparr>executable = ''python'', output_folder = ''/m'', audio_format = ''mp3''\<rparr>))
     = [ProgressBar 0, StatusFail ''1 songs failed to download'',
        Log ''1 songs failed to download'' ''error'',
        ShowError ''Error'' ''1 songs failed to download'']
   \<and> report (batch_download_worker
           \<lparr>executable = ''python'', output_folder = ''/m'', audio_format = ''mp3''\<rparr>
           (Inl (PyException ''no python''))
           [\<lparr>item_url = ''a'',
             item_env = \<lparr>flag_on_entry = True,
                         run = Inr \<lparr>returncode = 0, stdout = ''ok'', stderr = ''''\<rparr>\<rparr>,
             flag_in_loop = False\<rparr>])
     = (False, ''Cancelled'')"
proof -
  let ?cfg = "\<lparr>executable = ''python'', output_folder = ''/m'', audio_format = ''mp3''\<rparr>"
  let ?ver = "Inl (PyException ''no python'') :: run_result"
  let ?i0 = "[\<lparr>item_url = ''a'',
             item_env = \<lparr>flag_on_entry = True,
                         run = Inr \<lparr>returncode = 0, stdout = ''ok'', stderr = ''''\<rparr>\<rparr>,
             flag_in_loop = True\<rparr>,
            \<lparr>item_url = ''b'',
             item_env = \<lparr>flag_on_entry = True,
                         run = Inr \<lparr>returncode = 1, stdout = ''boom'', stderr = ''''\<rparr>\<rparr>,
             flag_in_loop = True\<rparr>]"
  let ?i1 = "[\<lparr>item_url = ''a'',
             item_env = \<lparr>flag_on_entry = True,
                         run = Inr \<lparr>returncode = 1, stdout = ''boom'', stderr = ''''\<rparr>\<rparr>,
             flag_in_loop = True\<rparr>]"
  let ?i2 = "[\<lparr>item_url = ''a'',
             item_env = \<lparr>flag_on_entry = True,
                         run = Inr \<lparr>returncode = 0, stdout = ''ok'', stderr = ''''\<rparr>\<rparr>,
             flag_in_loop = False\<rparr>]"
  let ?r0 = "batch_download_worker ?cfg ?ver ?i0"
  let ?r1 = "batch_download_worker ?cfg ?ver ?i1"
  let ?r2 = "batch_download_worker ?cfg ?ver ?i2"
  have z1: "\<not> cancelled_in_loop ?r0" by code_simp
  have z2: "outcomes ?cfg ?ver ?i0 = [''downloaded'', ''error'']" by code_simp
  have a1: "\<not> cancelled_in_loop ?r1" by code_simp
  have a2: "outcomes ?cfg ?ver ?i1 = [''error'']" by code_simp
  have a3: "show_nat 1 = ''1''" by code_simp
  have b1: "cancelled_in_loop ?r2" by code_simp
  have w0: "fst (report ?r0)"
    using batch_report [OF refl refl, of ?cfg ?ver ?i0 "initial_app ?cfg"] z1 z2 by simp
  have w1: "report ?r1 = (False, ''1 songs failed to download'')
      \<and> notified (initial_app ?cfg) (finish_batch ?r1 (initial_app ?cfg))
        = [ProgressBar 0, StatusFail (snd (report ?r1)), Log (snd (report ?r1)) ''error'',
           ShowError ''Error'' (snd (report ?r1))]"
    using batch_report [OF refl refl, of ?cfg ?ver ?i1 "initial_app ?cfg"] a1 a2 a3
    by simp
  have w2: "report ?r2 = (False, ''Cancelled'')"
    using batch_report [OF refl refl, of ?cfg ?ver ?i2 "initial_app ?cfg"] b1
    by simp
  from w0 w1 w2 show ?thesis by simp
qed

section \<open>One version check for each batch\<close>

lemma threads_click_download:
  "threads (click_download s) = threads s
   \<or> (\<exists>u. threads (click_download s) = threads s @ [DownloadWorker [u]])
   \<or> (\<exists>u. threads (click_download s) = threads s @ [BatchDownloadWorker [u]])"
  by (simp add: click_download_def start_url_download_def start_download_def
        start_batch_download_def start_thread_def emit_def set_downloading_state_def Let_def)

lemma threads_click_liked:
  "threads (click_liked answer s) = threads s
   \<or> (\<exists>n. threads (click_liked answer s) = threads s @ [FetchLiked n])"
  by (cases answer)
     (simp_all add: click_liked_def download_liked_songs_def start_thread_def emit_def
        set_downloading_state_def)

lemma worker_threads_singleton:
  "reachable cfg s \<Longrightarrow> DownloadWorker urls \<in> set (threads s) \<Longrightarrow> length urls = 1"
proof (induction rule: reachable.induct)
  case r_init
  then show ?case by (simp add: initial_app_def)
next
  case (r_type s typed)
  then show ?case by simp
next
  case (r_url s)
  with threads_click_download [of s] show ?case by auto
next
  case (r_liked s answer)
  with threads_click_liked [of answer s] show ?case by auto
next
  case (r_fetched s urls')
  then show ?case
    by (simp add: start_batch_download_urls_def start_thread_def emit_def set_downloading_state_def)
next
  case (r_cancel s)
  then show ?case by (simp add: click_cancel_def cancel_download_def emit_def split: if_splits)
next
  case (r_complete s success message)
  then show ?case
    by (simp add: download_complete_def emit_def set_downloading_state_def Let_def split: if_splits)
next
  case (r_login s)
  then show ?case by (simp add: login_def)
next
  case (r_logout s)
  then show ?case by (simp add: logout_def emit_def)
qed

lemma worker_probes_one_url:
  "length songs \<le> 1 \<Longrightarrow> probes cfg (song_effects (download_worker cfg songs flag_after)) \<le> 1"
proof -
  assume a: "length songs \<le> 1"
  have b: "length (filter (\<lambda>x. song_flag_on_entry (song_item_env x)) songs) \<le> length songs"
    by (rule length_filter_le)
  from b a have "length (filter (\<lambda>x. song_flag_on_entry (song_item_env x)) songs) \<le> 1"
    by (rule le_trans)
  then show ?thesis unfolding worker_probes .
qed

text \<open>
  C5. \<open>batch_download_worker\<close> starts the version check exactly once, whatever the
  number of URLs, and every download command it starts is in the grammar of the dialect
  that this one check chose and not in the other grammar. \<open>download_worker\<close> runs one
  version check in every call of \<open>download_single_song\<close> that finds the flag set; every
  list it is started with holds exactly one URL, so it too starts the version check at
  most once in a batch. Each of its download commands is in exactly one of the two
  grammars.
\<close>

theorem dialect_probes_and_grammar:
  "probes cfg (effects (batch_download_worker cfg ver items)) = 1
   \<and> (\<forall>cmd. Spawn cmd \<in> set (effects (batch_download_worker cfg ver items)) \<and> cmd \<noteq> version_cmd cfg
        \<longrightarrow> (if detect_is_v4 ver then v4_grammar cmd \<and> \<not> v3_grammar cmd
             else v3_grammar cmd \<and> \<not> v4_grammar cmd))
   \<and> (reachable cfg' s \<and> DownloadWorker urls \<in> set (threads s) \<and> map song_url songs = urls
        \<longrightarrow> length urls = 1
            \<and> probes cfg (song_effects (download_worker cfg songs flag_after)) \<le> 1)
   \<and> (\<forall>cmd. Spawn cmd \<in> set (song_effects (download_worker cfg songs flag_after)) \<and> cmd \<noteq> version_cmd cfg
        \<longrightarrow> v4_grammar cmd \<noteq> v3_grammar cmd)"
proof -
  have p2: "\<forall>cmd. Spawn cmd \<in> set (effects (batch_download_worker cfg ver items)) \<and> cmd \<noteq> version_cmd cfg
        \<longrightarrow> (if detect_is_v4 ver then v4_grammar cmd \<and> \<not> v3_grammar cmd
             else v3_grammar cmd \<and> \<not> v4_grammar cmd)"
  proof (intro allI impI)
    fix cmd
    assume "Spawn cmd \<in> set (effects (batch_download_worker cfg ver items)) \<and> cmd \<noteq> version_cmd cfg"
    then obtain url where "cmd = download_cmd cfg (detect_is_v4 ver) url"
      using batch_spawned by blast
    then show "if detect_is_v4 ver then v4_grammar cmd \<and> \<not> v3_grammar cmd
             else v3_grammar cmd \<and> \<not> v4_grammar cmd"
      using download_cmd_v4 [of cfg url] download_cmd_v3 [of cfg url] by simp
  qed
  have p3: "reachable cfg' s \<and> DownloadWorker urls \<in> set (threads s) \<and> map song_url songs = urls
        \<longrightarrow> length urls = 1
            \<and> probes cfg (song_effects (download_worker cfg songs flag_after)) \<le> 1"
  proof
    assume h: "reachable cfg' s \<and> DownloadWorker urls \<in> set (threads s) \<and> map song_url songs = urls"
    then have l: "length urls = 1" using worker_threads_singleton by blast
    with h have "length songs \<le> 1" by auto
    then have "probes cfg (song_effects (download_worker cfg songs flag_after)) \<le> 1"
      by (rule worker_probes_one_url)
    with l show "length urls = 1
            \<and> probes cfg (song_effects (download_worker cfg songs flag_after)) \<le> 1" ..
  qed
  have p4: "\<forall>cmd. Spawn cmd \<in> set (song_effects (download_worker cfg songs flag_after)) \<and> cmd \<noteq> version_cmd cfg
        \<longrightarrow> v4_grammar cmd \<noteq> v3_grammar cmd"
  proof (intro allI impI)
    fix cmd
    assume "Spawn cmd \<in> set (song_effects (download_worker cfg songs flag_after)) \<and> cmd \<noteq> version_cmd cfg"
    then obtain v url where c: "cmd = download_cmd cfg v url"
      using worker_spawned by blast
    show "v4_grammar cmd \<noteq> v3_grammar cmd"
      unfolding c using download_cmd_v4 [of cfg url] download_cmd_v3 [of cfg url]
      by (cases v) simp_all
  qed
  from batch_probes [of cfg ver items] p2 p3 p4
  show ?thesis by (intro conjI)
qed

text \<open>The theorem of C5 at a batch of one URL whose version check prints \<open>3.9.1\<close>: the
  download command is in the v3 grammar and not in the v4 grammar; and at the worker that
  a click on Download starts for a track URL: one URL, one version check.\<close>

theorem dialect_probes_and_grammar_witness:
  "v3_grammar [''python'', ''-m'', ''spotdl'', ''a'', ''--output'', ''/m'',
               ''--output-format'', ''mp3'', ''--path-template'', ''{artist} - {title}.{ext}'']
   \<and> \<not> v4_grammar [''python'', ''-m'', ''spotdl'', ''a'', ''--output'', ''/m'',
               ''--output-format'', ''mp3'', ''--path-template'', ''{artist} - {title}.{ext}'']
   \<and> probes \<lparr>executable = ''python'', output_folder = ''/m'', audio_format = ''mp3''\<rparr>
        (song_effects (download_worker
           \<lparr>executable = ''python'', output_folder = ''/m'', audio_format = ''mp3''\<rparr>
           [\<lparr>song_url = ''https://open.spotify.com/track/abc'',
             song_item_env = \<lparr>song_flag_on_entry = True,
                               ver_check = Inr \<lparr>returncode = 0, stdout = ''4.2.0'', stderr = ''''\<rparr>,
                               popen = Inr \<lparr>out_lines = [], finish = Inr 0\<rparr>\<rparr>,
             song_flag_in_loop = True\<rparr>]
           True)) \<le> 1"
proof -
  let ?cfg = "\<lparr>executable = ''python'', output_folder = ''/m'', audio_format = ''mp3''\<rparr>"
  let ?ver = "Inr \<lparr>returncode = 0, stdout = ''3.9.1'', stderr = ''''\<rparr> :: run_result"
  let ?items = "[\<lparr>item_url = ''a'',
             item_env = \<lparr>flag_on_entry = True,
                         run = Inr \<lparr>returncode = 0, stdout = ''ok'', stderr = ''''\<rparr>\<rparr>,
             flag_in_loop = True\<rparr>]"
  let ?cmd = "[''python'', ''-m'', ''spotdl'', ''a'', ''--output'', ''/m'',
               ''--output-format'', ''mp3'', ''--path-template'', ''{artist} - {title}.{ext}'']"
  let ?songs = "[\<lparr>song_url = ''https://open.spotify.com/track/abc'',
             song_item_env = \<lparr>song_flag_on_entry = True,
                               ver_check = Inr \<lparr>returncode = 0, stdout = ''4.2.0'', stderr = ''''\<rparr>,
                               popen = Inr \<lparr>out_lines = [], finish = Inr 0\<rparr>\<rparr>,
             song_flag_in_loop = True\<rparr>]"
  let ?s = "click_download ((initial_app ?cfg)\<lparr>url_entry := ''https://open.spotify.com/track/abc''\<rparr>)"
  have a: "Spawn ?cmd \<in> set (effects (batch_download_worker ?cfg ?ver ?items))" by code_simp
  have b: "?cmd \<noteq> version_cmd ?cfg" by (simp add: version_cmd_def)
  have c: "\<not> detect_is_v4 ?ver" by code_simp
  have r: "reachable ?cfg ?s" by (intro r_url r_type r_init)
  have t: "DownloadWorker [''https://open.spotify.com/track/abc''] \<in> set (threads ?s)" by code_simp
  have m: "map song_url ?songs = [''https://open.spotify.com/track/abc'']" by simp
  note inst = dialect_probes_and_grammar
    [of ?cfg ?ver ?items ?cfg ?s "[''https://open.spotify.com/track/abc'']" ?songs True]
  from inst a b c have g: "v3_grammar ?cmd \<and> \<not> v4_grammar ?cmd" by (simp del: set_simps)
  from inst r t m have p: "probes ?cfg (song_effects (download_worker ?cfg ?songs True)) \<le> 1"
    by blast
  from g p show ?thesis by blast
qed

end
